theory Spec2Isabelle
  imports Complex_Main "HOL-Library.Char_ord" "HOL-Library.List_Lexorder" "HOL-Library.Multiset"
begin

section \<open>combine\_pdfs.py: the data the script works on\<close>

text \<open>
  The exceptions of the script. \<open>get_pdf_files\<close> raises the first three with the text of
  its f-strings. \<open>TypeError\<close> is what Python raises when \<open><\<close> meets an \<open>int\<close> and a
  \<open>str\<close> (its text names the two types in the order the sort compared them, which is
  not modelled). \<open>IsADirectoryError\<close> is what opening a directory for reading raises, and
  \<open>OtherError\<close> is any other exception of the operating system or of PyPDF2, with its
  text.
\<close>

datatype error =
    FileNotFoundError string
  | NotADirectoryError string
  | ValueError string
  | TypeError
  | IsADirectoryError
  | OtherError string

text \<open>
  What a path names. For an entry that is not a directory the model keeps the outcome of
  the two calls the script makes on it: \<open>x.stat().st_mtime\<close> (an exception, as for a
  dangling symbolic link, or the time stamp, a finite float and so a rational number) and
  \<open>merger.append(str(x))\<close> (an exception for a file PyPDF2 cannot read, or the pages it
  appends). A directory has a time stamp and its entries, in the order the operating
  system lists them.
\<close>

datatype 'p node =
    File "error + rat" "error + 'p list"
  | Dir rat "(string \<times> 'p node) list"

text \<open>A listed path: its final component and what it names.\<close>

type_synonym 'p entry = "string \<times> 'p node"

text \<open>One call of \<open>print\<close> on standard output, by the f-string it prints.\<close>

datatype line =
    Text string
  | Combining nat
  | Adding string
  | Warning string error
  | Writing string
  | Success nat string

text \<open>
  The world of one run: the file system as a lookup of the path strings the script is
  given, the lines printed on standard output, and the exceptions printed on standard
  error, each by one \<open>print(f"Error: {e}", file=sys.stderr)\<close>.
\<close>

record 'p world =
  fs :: "string \<Rightarrow> 'p node option"
  stdout :: "line list"
  stderr :: "error list"

datatype sort_choice = Name | Numeric | Date

section \<open>pathlib and str, on ASCII names\<close>

text \<open>
  File names are ASCII strings here: \<open>isdigit\<close>, \<open>isalnum\<close> and \<open>lower\<close> are Python's
  on the ASCII range, and a character outside it counts as neither letter nor digit.
  Strings compare as Python's do, character by character.
\<close>

definition isdigit :: "char \<Rightarrow> bool" where
  "isdigit c = (CHR ''0'' \<le> c \<and> c \<le> CHR ''9'')"

definition isupper :: "char \<Rightarrow> bool" where
  "isupper c = (CHR ''A'' \<le> c \<and> c \<le> CHR ''Z'')"

definition islower :: "char \<Rightarrow> bool" where
  "islower c = (CHR ''a'' \<le> c \<and> c \<le> CHR ''z'')"

definition isalnum :: "char \<Rightarrow> bool" where
  "isalnum c = (isdigit c \<or> isupper c \<or> islower c)"

definition lower :: "char \<Rightarrow> char" where
  "lower c = (if isupper c then char_of (of_char c + (32::nat)) else c)"

text \<open>\<open>int(c)\<close> for a single decimal digit.\<close>

definition int_of_digit :: "char \<Rightarrow> int" where
  "int_of_digit c = int (of_char c) - 48"

definition endswith :: "string \<Rightarrow> string \<Rightarrow> bool" where
  "endswith s suffix =
     (length suffix \<le> length s \<and> drop (length s - length suffix) s = suffix)"

text \<open>
  \<open>Path.stem\<close>: with \<open>i = name.rfind('.')\<close>, the name up to \<open>i\<close> when
  \<open>0 < i < len(name) - 1\<close>, and the whole name otherwise. \<open>after\<close> is the part of the
  name behind its last dot.
\<close>

definition stem :: "string \<Rightarrow> string" where
  "stem name =
     (let after = rev (takeWhile (\<lambda>c. c \<noteq> CHR ''.'') (rev name))
      in if length after < length name \<and> 0 < length name - length after - 1 \<and> after \<noteq> []
         then take (length name - length after - 1) name
         else name)"

section \<open>get\_pdf\_files\<close>

definition path_exists :: "(string \<Rightarrow> 'p node option) \<Rightarrow> string \<Rightarrow> bool" where
  "path_exists fsys p = (fsys p \<noteq> None)"

definition is_dir :: "(string \<Rightarrow> 'p node option) \<Rightarrow> string \<Rightarrow> bool" where
  "is_dir fsys p = (case fsys p of Some (Dir _ _) \<Rightarrow> True | _ \<Rightarrow> False)"

text \<open>
  \<open>directory_path.glob("*.pdf")\<close>: the entries of the directory itself whose name ends
  in \<open>.pdf\<close>, whatever they are, in the order the directory lists them. The pattern has
  no \<open>**\<close>, so no entry of a subdirectory is looked at.
\<close>

definition glob_pdf :: "(string \<Rightarrow> 'p node option) \<Rightarrow> string \<Rightarrow> 'p entry list" where
  "glob_pdf fsys p =
     (case fsys p of
        Some (Dir _ children) \<Rightarrow> filter (\<lambda>f. endswith (fst f) ''.pdf'') children
      | _ \<Rightarrow> [])"

text \<open>
  \<open>sorted\<close> on the paths: they share their directory, so they compare by their final
  component.
\<close>

definition get_pdf_files :: "(string \<Rightarrow> 'p node option) \<Rightarrow> string \<Rightarrow> error + 'p entry list" where
  "get_pdf_files fsys directory =
     (if \<not> path_exists fsys directory
      then Inl (FileNotFoundError (''Directory not found: '' @ directory))
      else if \<not> is_dir fsys directory
      then Inl (NotADirectoryError (''Path is not a directory: '' @ directory))
      else let pdf_files = sort_key fst (glob_pdf fsys directory)
           in if pdf_files = []
              then Inl (ValueError (''No PDF files found in directory: '' @ directory))
              else Inr pdf_files)"

section \<open>The three sort methods of main\<close>

text \<open>
  The numeric key: one element for each alphanumeric character of the stem, an \<open>int\<close> for
  a digit and the lower-case character, a \<open>str\<close> of length one, otherwise.
\<close>

datatype token = PyInt int | PyStr string

definition numeric_key :: "'p entry \<Rightarrow> token list" where
  "numeric_key x =
     map (\<lambda>c. if isdigit c then PyInt (int_of_digit c) else PyStr [lower c])
       (filter isalnum (stem (fst x)))"

text \<open>
  \<open><\<close> on two elements of a key: \<open>None\<close> is the \<open>TypeError\<close> of comparing an \<open>int\<close> with
  a \<open>str\<close>.
\<close>

fun token_lt :: "token \<Rightarrow> token \<Rightarrow> bool option" where
  "token_lt (PyInt a) (PyInt b) = Some (a < b)"
| "token_lt (PyStr a) (PyStr b) = Some (a < b)"
| "token_lt (PyInt a) (PyStr b) = None"
| "token_lt (PyStr a) (PyInt b) = None"

text \<open>
  \<open><\<close> on two lists: Python skips the common prefix (by \<open>==\<close>, which is \<open>False\<close> and not an
  error between an \<open>int\<close> and a \<open>str\<close>), compares the first two elements that differ with
  \<open><\<close>, and the lengths when there are none.
\<close>

fun key_lt :: "token list \<Rightarrow> token list \<Rightarrow> bool option" where
  "key_lt [] [] = Some False"
| "key_lt [] (b # bs) = Some True"
| "key_lt (a # as) [] = Some False"
| "key_lt (a # as) (b # bs) = (if a = b then key_lt as bs else token_lt a b)"

text \<open>Stable insertion for a strict comparison: \<open>x\<close> goes behind every element below it
  and before the first that is not.\<close>

fun insort_by :: "('a \<Rightarrow> 'a \<Rightarrow> bool) \<Rightarrow> 'a \<Rightarrow> 'a list \<Rightarrow> 'a list" where
  "insort_by lt x [] = [x]"
| "insort_by lt x (y # ys) = (if lt y x then y # insort_by lt x ys else x # y # ys)"

text \<open>
  The built-in \<open>sorted(xs, key=...)\<close> for keys whose \<open><\<close> can raise: it is a stable
  comparison sort, so where every two keys of the list compare it returns the one stable
  ordering, and where two of them do not, the comparison that has to decide between them
  raises and \<open>sorted\<close> with it.
\<close>

definition sorted_by_key ::
  "('a \<Rightarrow> 'k) \<Rightarrow> ('k \<Rightarrow> 'k \<Rightarrow> bool option) \<Rightarrow> 'a list \<Rightarrow> error + 'a list" where
  "sorted_by_key key lt xs =
     (if list_all (\<lambda>x. list_all (\<lambda>y. lt (key x) (key y) \<noteq> None) xs) xs
      then Inr (foldr (insort_by (\<lambda>x y. lt (key x) (key y) = Some True)) xs [])
      else Inl TypeError)"

text \<open>
  \<open>sorted\<close> computes the key of every element first, in order: the first exception of a
  key ends it.
\<close>

fun keyed :: "('a \<Rightarrow> error + 'k) \<Rightarrow> 'a list \<Rightarrow> error + ('k \<times> 'a) list" where
  "keyed key [] = Inr []"
| "keyed key (x # xs) =
     (case key x of
        Inl e \<Rightarrow> Inl e
      | Inr k \<Rightarrow> (case keyed key xs of Inl e \<Rightarrow> Inl e | Inr ks \<Rightarrow> Inr ((k, x) # ks)))"

text \<open>\<open>x.stat().st_mtime\<close>.\<close>

fun st_mtime :: "'p entry \<Rightarrow> error + rat" where
  "st_mtime (n, File s a) = s"
| "st_mtime (n, Dir t children) = Inr t"

definition sort_files :: "sort_choice \<Rightarrow> 'p entry list \<Rightarrow> error + 'p entry list" where
  "sort_files choice pdf_files =
     (case choice of
        Numeric \<Rightarrow> sorted_by_key numeric_key key_lt pdf_files
      | Date \<Rightarrow>
          (case keyed st_mtime pdf_files of
             Inl e \<Rightarrow> Inl e
           | Inr ks \<Rightarrow> Inr (map snd (sort_key fst ks)))
      | Name \<Rightarrow> Inr pdf_files)"

section \<open>combine\_pdfs\<close>

text \<open>
  \<open>PdfMerger\<close> is PyPDF2's. The model of the merger is the list of the pages appended so
  far: \<open>merger.append\<close> of a file PyPDF2 reads adds the file's pages behind them, and one
  that raises leaves them as they were. \<open>merger.write\<close> is a parameter of the model: given
  the pages, the path and the file system, it returns the file system it leaves behind
  and the exception it raised, if any.
\<close>

type_synonym 'p writer =
  "'p list \<Rightarrow> string \<Rightarrow> (string \<Rightarrow> 'p node option) \<Rightarrow> error option \<times> (string \<Rightarrow> 'p node option)"

text \<open>\<open>merger.append(str(pdf_file))\<close>: what it raises, or the pages it appends.\<close>

fun append_outcome :: "'p entry \<Rightarrow> error + 'p list" where
  "append_outcome (n, File s a) = a"
| "append_outcome (n, Dir t children) = Inl IsADirectoryError"

text \<open>The \<open>for\<close> loop, on the merger's pages and the lines printed so far.\<close>

fun append_all :: "'p entry list \<Rightarrow> 'p list \<times> line list \<Rightarrow> 'p list \<times> line list" where
  "append_all [] (merger, out) = (merger, out)"
| "append_all (pdf_file # rest) (merger, out) =
     (case append_outcome pdf_file of
        Inr pages \<Rightarrow> append_all rest (merger @ pages, out @ [Adding (fst pdf_file)])
      | Inl e \<Rightarrow>
          append_all rest (merger, out @ [Adding (fst pdf_file), Warning (fst pdf_file) e]))"

text \<open>
  The result is the exception that leaves the function, if any, and the world as it is
  then.
\<close>

definition combine_pdfs ::
  "'p writer \<Rightarrow> 'p entry list \<Rightarrow> string \<Rightarrow> 'p world \<Rightarrow> error option \<times> 'p world" where
  "combine_pdfs wr pdf_files output_file w =
     (let (merger, out) = append_all pdf_files ([], stdout w @ [Combining (length pdf_files)]);
          (raised, fsys) = wr merger output_file (fs w);
          w' = w\<lparr>fs := fsys, stdout := out @ [Writing output_file]\<rparr>
      in case raised of
           Some e \<Rightarrow> (Some e, w')
         | None \<Rightarrow>
             (None, w'\<lparr>stdout := stdout w' @ [Success (length pdf_files) output_file]\<rparr>))"

section \<open>main and the import guard\<close>

text \<open>The parsed arguments: \<open>args.directory\<close>, \<open>args.output\<close> and \<open>args.sort\<close>.\<close>

record args =
  directory :: string
  output_arg :: string
  sort_arg :: sort_choice

text \<open>
  The \<open>try\<close> block of \<open>main\<close> and its handler. The result is the exit status of the
  process (\<open>sys.exit(1)\<close> in the handler, 0 when \<open>main\<close> returns) and the world it leaves.
\<close>

definition main :: "'p writer \<Rightarrow> args \<Rightarrow> 'p world \<Rightarrow> nat \<times> 'p world" where
  "main wr a w =
     (case get_pdf_files (fs w) (directory a) of
        Inl e \<Rightarrow> (1, w\<lparr>stderr := stderr w @ [e]\<rparr>)
      | Inr pdf_files \<Rightarrow>
          (case sort_files (sort_arg a) pdf_files of
             Inl e \<Rightarrow> (1, w\<lparr>stderr := stderr w @ [e]\<rparr>)
           | Inr sorted_files \<Rightarrow>
               (case combine_pdfs wr sorted_files (output_arg a) w of
                  (Some e, w') \<Rightarrow> (1, w'\<lparr>stderr := stderr w' @ [e]\<rparr>)
                | (None, w') \<Rightarrow> (0, w'))))"

text \<open>
  The script from its first line: the import of PyPDF2 and its guard, then
  \<open>parser.parse_args()\<close>, then the rest of \<open>main\<close>. \<open>argparse\<close> is a parameter: on the
  command line it either returns the parsed arguments or ends the process itself, with
  a status and the world it leaves (status 2 after a usage message, 0 after \<open>--help\<close>).
\<close>

definition script ::
  "bool \<Rightarrow> (string list \<Rightarrow> 'p world \<Rightarrow> nat \<times> 'p world + args) \<Rightarrow> string list \<Rightarrow>
     'p writer \<Rightarrow> 'p world \<Rightarrow> nat \<times> 'p world" where
  "script pypdf2_importable parse_args argv wr w =
     (if \<not> pypdf2_importable
      then (1, w\<lparr>stdout := stdout w @
                   [Text ''Error: PyPDF2 is not installed.'',
                    Text ''Please install it using: pip install PyPDF2'']\<rparr>)
      else case parse_args argv w of
             Inl ended \<Rightarrow> ended
           | Inr a \<Rightarrow> main wr a w)"

section \<open>Notions the statements use, and example inputs\<close>

text \<open>The pages one entry adds to the merger, and what the loop prints for it.\<close>

definition pages_of :: "'p entry \<Rightarrow> 'p list" where
  "pages_of x = (case append_outcome x of Inr pages \<Rightarrow> pages | Inl e \<Rightarrow> [])"

definition lines_of :: "'p entry \<Rightarrow> line list" where
  "lines_of x =
     (case append_outcome x of
        Inr pages \<Rightarrow> [Adding (fst x)]
      | Inl e \<Rightarrow> [Adding (fst x), Warning (fst x) e])"

definition readable :: "'p entry \<Rightarrow> bool" where
  "readable x = (case append_outcome x of Inr pages \<Rightarrow> True | Inl e \<Rightarrow> False)"

text \<open>The warnings among printed lines: the file each names and the exception.\<close>

fun warnings :: "line list \<Rightarrow> (string \<times> error) list" where
  "warnings [] = []"
| "warnings (Warning n e # ls) = (n, e) # warnings ls"
| "warnings (l # ls) = warnings ls"

text \<open>
  \<open>Path.is_file()\<close>, which the script never calls, and whether \<open>stat()\<close> succeeds on an
  entry.
\<close>

fun is_file :: "'p entry \<Rightarrow> bool" where
  "is_file (n, File s a) = True"
| "is_file (n, Dir t children) = False"

definition has_mtime :: "'p entry \<Rightarrow> bool" where
  "has_mtime x = (case st_mtime x of Inr t \<Rightarrow> True | Inl e \<Rightarrow> False)"

text \<open>
  Two writers. The first succeeds: the path then names a file with the merged pages. The
  second is a write that runs out of space: PyPDF2 opens the path with mode \<open>wb\<close>, which
  creates or empties the file, and the write into it raises.
\<close>

definition write_ok :: "'p writer" where
  "write_ok pages path fsys = (None, fsys(path \<mapsto> File (Inr 0) (Inr pages)))"

definition write_no_space :: "'p writer" where
  "write_no_space pages path fsys =
     (Some (OtherError ''[Errno 28] No space left on device''),
      fsys(path \<mapsto> File (Inr 0) (Inl (OtherError ''Cannot read an empty file''))))"

text \<open>A PDF of the given pages with the given time stamp, and a file PyPDF2 rejects.\<close>

definition pdf :: "rat \<Rightarrow> nat list \<Rightarrow> nat node" where
  "pdf t pages = File (Inr t) (Inr pages)"

definition corrupt :: "nat node" where
  "corrupt = File (Inr 0) (Inl (OtherError ''EOF marker not found''))"

definition world_of :: "(string \<times> nat node) list \<Rightarrow> nat world" where
  "world_of children =
     \<lparr>fs = (\<lambda>p. if p = ''docs'' then Some (Dir 0 children) else None),
      stdout = [], stderr = []\<rparr>"

definition args_of :: "sort_choice \<Rightarrow> args" where
  "args_of choice = \<lparr>directory = ''docs'', output_arg = ''out.pdf'', sort_arg = choice\<rparr>"

text \<open>Directories and file lists of the examples.\<close>

definition no_pdf_dir :: "nat entry list" where
  "no_pdf_dir = [(''notes.txt'', pdf 1 [1]), (''scan.PDF'', pdf 2 [2])]"

definition dir_with_subdir :: "nat entry list" where
  "dir_with_subdir =
     [(''scans.pdf'', Dir 3 [(''inner.pdf'', pdf 1 [1])]), (''notes.txt'', pdf 4 [4]),
      (''a.pdf'', pdf 2 [2])]"

definition numbered_dir :: "nat entry list" where
  "numbered_dir = [(''a2.pdf'', pdf 1 [2]), (''a10.pdf'', pdf 1 [10]), (''a1.pdf'', pdf 1 [1])]"

definition mixed_dir :: "nat entry list" where
  "mixed_dir = [(''a1.pdf'', pdf 1 [1]), (''1a.pdf'', pdf 1 [2])]"

definition dated_files :: "nat entry list" where
  "dated_files = [(''a.pdf'', pdf 5 [1]), (''b.pdf'', pdf 2 [2]), (''c.pdf'', pdf 5 [3])]"

definition one_corrupt :: "nat entry list" where
  "one_corrupt = [(''a.pdf'', pdf 1 [10, 11]), (''b.pdf'', corrupt), (''c.pdf'', pdf 1 [30])]"

definition only_pdf_subdir :: "nat entry list" where
  "only_pdf_subdir =
     [(''scans.pdf'', Dir 3 [(''inner.pdf'', pdf 1 [1])]), (''notes.txt'', pdf 4 [4])]"

section \<open>Lemmas\<close>

lemma append_all_eq:
  "append_all xs (merger, out) =
     (merger @ concat (map pages_of xs), out @ concat (map lines_of xs))"
  by (induction xs arbitrary: merger out)
     (auto simp: pages_of_def lines_of_def split: sum.splits)

lemma combine_pdfs_eq:
  "combine_pdfs wr xs p w =
     (let out = stdout w @ Combining (length xs) # concat (map lines_of xs) @ [Writing p];
          written = wr (concat (map pages_of xs)) p (fs w)
      in case fst written of
           Some e \<Rightarrow> (Some e, w\<lparr>fs := snd written, stdout := out\<rparr>)
         | None \<Rightarrow> (None, w\<lparr>fs := snd written, stdout := out @ [Success (length xs) p]\<rparr>))"
  by (simp add: combine_pdfs_def append_all_eq Let_def split: prod.splits option.splits)


lemma sort_key_Nil_iff: "sort_key f xs = [] \<longleftrightarrow> xs = []"
  by (metis length_sort length_0_conv)

lemma distinct_map_sort_key: "distinct (map f (sort_key f xs)) = distinct (map f xs)"
  by (induction xs) (simp_all add: distinct_insort_key)

lemma keyed_Inr:
  "(\<And>x. x \<in> set xs \<Longrightarrow> \<exists>t. key x = Inr t) \<Longrightarrow>
     \<exists>ks. keyed key xs = Inr ks \<and> map snd ks = xs
        \<and> list_all (\<lambda>kx. key (snd kx) = Inr (fst kx)) ks"
proof (induction xs)
  case Nil
  then show ?case by simp
next
  case (Cons x xs)
  then obtain ks where ks: "keyed key xs = Inr ks" "map snd ks = xs"
      "list_all (\<lambda>kx. key (snd kx) = Inr (fst kx)) ks"
    by auto
  from Cons.prems obtain t where "key x = Inr t" by auto
  with ks show ?case by simp
qed

lemma sorted_wrt_keys:
  "list_all (\<lambda>kx. key (snd kx) = Inr (fst kx)) ks \<Longrightarrow> sorted (map fst ks) \<Longrightarrow>
     sorted_wrt (\<lambda>x y. \<exists>s t. key x = Inr s \<and> key y = Inr t \<and> s \<le> t) (map snd ks)"
  by (induction ks) (auto simp: list_all_iff)

lemma filter_keys:
  "list_all (\<lambda>kx. key (snd kx) = Inr (fst kx)) ks \<Longrightarrow>
     filter (\<lambda>x. key x = Inr t) (map snd ks) = map snd (filter (\<lambda>kx. fst kx = t) ks)"
  by (induction ks) auto

lemma warnings_append: "warnings (xs @ ys) = warnings xs @ warnings ys"
  by (induction xs rule: warnings.induct) simp_all

lemma warnings_readable:
  "list_all readable xs \<Longrightarrow> warnings (concat (map lines_of xs)) = []"
  by (induction xs) (auto simp: readable_def lines_of_def warnings_append split: sum.splits)

lemma pages_of_unreadable: "append_outcome x = Inl e \<Longrightarrow> pages_of x = []"
  by (simp add: pages_of_def)

lemma glob_pdf_Nil_iff:
  "f p = Some (Dir u cs) \<Longrightarrow>
     glob_pdf f p = [] \<longleftrightarrow> \<not> list_ex (\<lambda>x. endswith (fst x) ''.pdf'') cs"
  by (auto simp: glob_pdf_def list_ex_iff filter_empty_conv)

section \<open>The import guard and the exit status\<close>

text \<open>
  C10: when PyPDF2 cannot be imported the script ends with status 1 whatever the command
  line is and before argparse or the file system is touched: the two lines of the guard
  go to standard output, nothing goes to standard error.
\<close>

theorem import_guard_exits_first:
  "script False parse_args argv wr w =
     (1, w\<lparr>stdout := stdout w @
               [Text ''Error: PyPDF2 is not installed.'',
                Text ''Please install it using: pip install PyPDF2'']\<rparr>)
   \<and> fs (snd (script False parse_args argv wr w)) = fs w
   \<and> stderr (snd (script False parse_args argv wr w)) = stderr w"
  by (simp add: script_def)


section \<open>The File Lister\<close>

text \<open>
  C5, as stated, fails: a directory whose only entry with a name ending in \<open>.pdf\<close> is a
  subdirectory holds no PDF file, yet \<open>get_pdf_files\<close> raises nothing, and the run ends
  with status 0 and writes an output file without pages.
\<close>

theorem lister_accepts_pdf_named_directory:
  "filter (\<lambda>f. is_file f \<and> endswith (fst f) ''.pdf'') only_pdf_subdir = []
   \<and> get_pdf_files (fs (world_of only_pdf_subdir)) ''docs''
        = Inr [(''scans.pdf'', Dir 3 [(''inner.pdf'', pdf 1 [1])])]
   \<and> fst (main write_ok (args_of Name) (world_of only_pdf_subdir)) = 0
   \<and> stderr (snd (main write_ok (args_of Name) (world_of only_pdf_subdir))) = []
   \<and> fs (world_of only_pdf_subdir) ''out.pdf'' = None
   \<and> fs (snd (main write_ok (args_of Name) (world_of only_pdf_subdir))) ''out.pdf''
        = Some (pdf 0 [])"
  by code_simp

text \<open>
  C5, amended: \<open>get_pdf_files\<close> raises \<open>FileNotFoundError\<close> exactly when the path does not
  exist, \<open>NotADirectoryError\<close> exactly when it names something that is not a directory,
  and \<open>ValueError\<close> (the spec's EmptyResultError) exactly when it names a directory none
  of whose entries, of whatever kind, has a name ending in \<open>.pdf\<close>; in that last case
  \<open>main\<close> ends with status 1 and leaves the world as it was but for the one line on
  standard error, so no output file is written, whatever the writer is.
\<close>

theorem lister_errors_by_entries:
  "((\<exists>m. get_pdf_files fsys d = Inl (FileNotFoundError m)) \<longleftrightarrow> fsys d = None)
   \<and> ((\<exists>m. get_pdf_files fsys d = Inl (NotADirectoryError m)) \<longleftrightarrow>
        (\<exists>s a. fsys d = Some (File s a)))
   \<and> ((\<exists>m. get_pdf_files fsys d = Inl (ValueError m)) \<longleftrightarrow>
        (\<exists>t children. fsys d = Some (Dir t children)
           \<and> \<not> list_ex (\<lambda>f. endswith (fst f) ''.pdf'') children))
   \<and> (fs w (directory a) = Some (Dir t children)
        \<and> \<not> list_ex (\<lambda>f. endswith (fst f) ''.pdf'') children \<longrightarrow>
        main wr a w =
          (1, w\<lparr>stderr := stderr w @
                    [ValueError (''No PDF files found in directory: '' @ directory a)]\<rparr>))"
proof -
  note g = glob_pdf_Nil_iff
  have 1: "(\<exists>m. get_pdf_files fsys d = Inl (FileNotFoundError m)) \<longleftrightarrow> fsys d = None"
    by (auto simp: get_pdf_files_def path_exists_def Let_def)
  have 2: "(\<exists>m. get_pdf_files fsys d = Inl (NotADirectoryError m)) \<longleftrightarrow>
        (\<exists>s a. fsys d = Some (File s a))"
    by (cases "fsys d")
       (auto simp: get_pdf_files_def path_exists_def is_dir_def Let_def split: node.splits)
  have 3: "(\<exists>m. get_pdf_files fsys d = Inl (ValueError m)) \<longleftrightarrow>
        (\<exists>t children. fsys d = Some (Dir t children)
           \<and> \<not> list_ex (\<lambda>f. endswith (fst f) ''.pdf'') children)"
  proof (cases "fsys d")
    case None
    then show ?thesis by (simp add: get_pdf_files_def path_exists_def)
  next
    case (Some x)
    show ?thesis
    proof (cases x)
      case (File s a)
      with Some show ?thesis
        by (simp add: get_pdf_files_def path_exists_def is_dir_def)
    next
      case (Dir u cs)
      with Some g [of fsys d u cs] show ?thesis
        by (simp add: get_pdf_files_def path_exists_def is_dir_def Let_def sort_key_Nil_iff)
    qed
  qed
  have 4: "main wr a w =
          (1, w\<lparr>stderr := stderr w @
                    [ValueError (''No PDF files found in directory: '' @ directory a)]\<rparr>)"
    if "fs w (directory a) = Some (Dir t children)"
      and "\<not> list_ex (\<lambda>f. endswith (fst f) ''.pdf'') children"
    using that g [of "fs w" "directory a" t children]
    by (simp add: main_def get_pdf_files_def path_exists_def is_dir_def Let_def sort_key_Nil_iff)
  from 1 2 3 4 show ?thesis by blast
qed

theorem lister_errors_by_entries_witness:
  "fs (world_of no_pdf_dir) (directory (args_of Numeric)) = Some (Dir 0 no_pdf_dir)
   \<and> \<not> list_ex (\<lambda>f. endswith (fst f) ''.pdf'') no_pdf_dir
   \<and> main write_ok (args_of Numeric) (world_of no_pdf_dir) =
       (1, world_of no_pdf_dir
             \<lparr>stderr := [ValueError ''No PDF files found in directory: docs'']\<rparr>)"
proof -
  let ?w = "world_of no_pdf_dir"
  have d: "directory (args_of Numeric) = ''docs''"
    by (simp add: args_of_def)
  have 1: "fs ?w (directory (args_of Numeric)) = Some (Dir 0 no_pdf_dir)"
    by (simp add: world_of_def args_of_def)
  have 2: "\<not> list_ex (\<lambda>f. endswith (fst f) ''.pdf'') no_pdf_dir"
    by (simp add: no_pdf_dir_def endswith_def)
  have "main write_ok (args_of Numeric) ?w =
      (1, ?w\<lparr>stderr := stderr ?w @
                 [ValueError (''No PDF files found in directory: '' @ directory (args_of Numeric))]\<rparr>)"
    using lister_errors_by_entries
            [where w = ?w and a = "args_of Numeric" and t = 0 and children = no_pdf_dir
               and wr = write_ok]
          1 2
    by blast
  then show ?thesis
    using 1 2 d by (simp add: world_of_def)
qed

text \<open>
  C6, as stated, fails: a subdirectory whose name ends in \<open>.pdf\<close> is returned with the
  files, so the result is not the list of the regular files of that name.
\<close>

theorem lister_returns_directory:
  "get_pdf_files (fs (world_of dir_with_subdir)) ''docs'' =
       Inr [(''a.pdf'', pdf 2 [2]), (''scans.pdf'', Dir 3 [(''inner.pdf'', pdf 1 [1])])]
   \<and> \<not> is_file (''scans.pdf'', Dir 3 [(''inner.pdf'', pdf 1 [1])])
   \<and> get_pdf_files (fs (world_of dir_with_subdir)) ''docs'' \<noteq>
       Inr (sort_key fst
             (filter (\<lambda>f. is_file f \<and> endswith (fst f) ''.pdf'') dir_with_subdir))"
  by (simp add: world_of_def dir_with_subdir_def get_pdf_files_def path_exists_def is_dir_def
        glob_pdf_def endswith_def pdf_def)

text \<open>
  C6, amended: for a directory (its entries under distinct names) with an entry whose
  name ends in \<open>.pdf\<close>, \<open>get_pdf_files\<close> returns exactly the entries of the directory
  itself whose name ends in \<open>.pdf\<close>, whatever they are, each once, in ascending order of
  their names.
\<close>

theorem lister_returns_matching_entries:
  assumes "fsys d = Some (Dir t children)"
    and "distinct (map fst children)"
    and "list_ex (\<lambda>f. endswith (fst f) ''.pdf'') children"
  shows "\<exists>pdf_files. get_pdf_files fsys d = Inr pdf_files
     \<and> mset pdf_files = mset (filter (\<lambda>f. endswith (fst f) ''.pdf'') children)
     \<and> set pdf_files = {f \<in> set children. endswith (fst f) ''.pdf''}
     \<and> distinct (map fst pdf_files)
     \<and> sorted (map fst pdf_files)"
proof -
  let ?found = "filter (\<lambda>f. endswith (fst f) ''.pdf'') children"
  have g: "glob_pdf fsys d = ?found"
    using assms(1) by (simp add: glob_pdf_def)
  have ne: "?found \<noteq> []"
    using assms(3) by (auto simp: list_ex_iff filter_empty_conv)
  have r: "get_pdf_files fsys d = Inr (sort_key fst ?found)"
    using assms(1) g ne
    by (simp add: get_pdf_files_def path_exists_def is_dir_def Let_def sort_key_Nil_iff)
  have d: "distinct (map fst (sort_key fst ?found))"
    using assms(2) by (simp add: distinct_map_sort_key distinct_map_filter)
  show ?thesis
    using r d by auto
qed

theorem lister_returns_matching_entries_witness:
  "fs (world_of numbered_dir) ''docs'' = Some (Dir 0 numbered_dir)
   \<and> distinct (map fst numbered_dir)
   \<and> list_ex (\<lambda>f. endswith (fst f) ''.pdf'') numbered_dir
   \<and> (\<exists>pdf_files. get_pdf_files (fs (world_of numbered_dir)) ''docs'' = Inr pdf_files
        \<and> mset pdf_files = mset (filter (\<lambda>f. endswith (fst f) ''.pdf'') numbered_dir)
        \<and> set pdf_files = {f \<in> set numbered_dir. endswith (fst f) ''.pdf''}
        \<and> distinct (map fst pdf_files)
        \<and> sorted (map fst pdf_files))"
proof -
  have 1: "fs (world_of numbered_dir) ''docs'' = Some (Dir 0 numbered_dir)"
    by (simp add: world_of_def)
  have 2: "distinct (map fst numbered_dir)"
    by (simp add: numbered_dir_def)
  have 3: "list_ex (\<lambda>f. endswith (fst f) ''.pdf'') numbered_dir"
    by (simp add: numbered_dir_def endswith_def)
  show ?thesis
    using 1 2 3
      lister_returns_matching_entries
        [of "fs (world_of numbered_dir)" "''docs''" 0 numbered_dir, OF 1 2 3]
    by blast
qed

section \<open>The sort methods\<close>

text \<open>
  C9: in date mode, on entries that \<open>stat()\<close> succeeds on, the sort returns the same
  entries in ascending order of their time stamps, and the entries of one time stamp
  stand in the order they had, which is the order of their names when the list came
  sorted by name.
\<close>

theorem date_sort_stable:
  assumes "list_all has_mtime pdf_files"
  shows "\<exists>sorted_files. sort_files Date pdf_files = Inr sorted_files
     \<and> mset sorted_files = mset pdf_files
     \<and> sorted_wrt (\<lambda>x y. \<exists>s t. st_mtime x = Inr s \<and> st_mtime y = Inr t \<and> s \<le> t) sorted_files
     \<and> (\<forall>t. filter (\<lambda>x. st_mtime x = Inr t) sorted_files
            = filter (\<lambda>x. st_mtime x = Inr t) pdf_files)
     \<and> (sorted (map fst pdf_files) \<longrightarrow>
          (\<forall>t. sorted (map fst (filter (\<lambda>x. st_mtime x = Inr t) sorted_files))))"
proof -
  have "\<exists>t. st_mtime x = Inr t" if "x \<in> set pdf_files" for x
  proof -
    from assms that have "has_mtime x" by (simp add: list_all_iff)
    then show ?thesis by (cases "st_mtime x") (simp_all add: has_mtime_def)
  qed
  then obtain ks where ks: "keyed st_mtime pdf_files = Inr ks" "map snd ks = pdf_files"
      "list_all (\<lambda>kx. st_mtime (snd kx) = Inr (fst kx)) ks"
    using keyed_Inr [of pdf_files st_mtime] by auto
  let ?ss = "sort_key fst ks"
  have all: "list_all (\<lambda>kx. st_mtime (snd kx) = Inr (fst kx)) ?ss"
    using ks(3) by (simp add: list_all_iff)
  have r: "sort_files Date pdf_files = Inr (map snd ?ss)"
    using ks(1) by (simp add: sort_files_def)
  have m: "mset (map snd ?ss) = mset pdf_files"
    using ks(2) by (metis mset_map mset_sort)
  have s: "sorted_wrt (\<lambda>x y. \<exists>s t. st_mtime x = Inr s \<and> st_mtime y = Inr t \<and> s \<le> t)
             (map snd ?ss)"
    using all by (rule sorted_wrt_keys) simp
  have st: "filter (\<lambda>x. st_mtime x = Inr t) (map snd ?ss)
              = filter (\<lambda>x. st_mtime x = Inr t) pdf_files" for t
  proof -
    have "filter (\<lambda>x. st_mtime x = Inr t) (map snd ?ss)
            = map snd (filter (\<lambda>kx. fst kx = t) ?ss)"
      using all by (rule filter_keys)
    also have "\<dots> = map snd (filter (\<lambda>kx. fst kx = t) ks)"
      by (simp add: sort_key_stable)
    also have "\<dots> = filter (\<lambda>x. st_mtime x = Inr t) (map snd ks)"
      using ks(3) by (rule filter_keys [symmetric])
    finally show ?thesis using ks(2) by simp
  qed
  have al: "sorted (map fst (filter (\<lambda>x. st_mtime x = Inr t) (map snd ?ss)))"
    if "sorted (map fst pdf_files)" for t
    using that by (simp only: st sorted_filter)
  show ?thesis using r m s st al by blast
qed

theorem date_sort_stable_witness:
  "list_all has_mtime dated_files
   \<and> sorted (map fst dated_files)
   \<and> sort_files Date dated_files =
       Inr [(''b.pdf'', pdf 2 [2]), (''a.pdf'', pdf 5 [1]), (''c.pdf'', pdf 5 [3])]
   \<and> (\<exists>sorted_files. sort_files Date dated_files = Inr sorted_files
        \<and> filter (\<lambda>x. st_mtime x = Inr 5) sorted_files
            = [(''a.pdf'', pdf 5 [1]), (''c.pdf'', pdf 5 [3])]
        \<and> sorted (map fst (filter (\<lambda>x. st_mtime x = Inr 5) sorted_files)))"
proof -
  have h: "list_all has_mtime dated_files"
    by (simp add: dated_files_def has_mtime_def pdf_def)
  have s: "sorted (map fst dated_files)"
    by (simp add: dated_files_def)
  have v: "sort_files Date dated_files =
       Inr [(''b.pdf'', pdf 2 [2]), (''a.pdf'', pdf 5 [1]), (''c.pdf'', pdf 5 [3])]"
    by (simp add: dated_files_def sort_files_def pdf_def)
  have f: "filter (\<lambda>x. st_mtime x = Inr 5) dated_files
        = [(''a.pdf'', pdf 5 [1]), (''c.pdf'', pdf 5 [3])]"
    by (simp add: dated_files_def pdf_def)
  from date_sort_stable [OF h] obtain sorted_files where
      "sort_files Date dated_files = Inr sorted_files"
      "\<forall>t. filter (\<lambda>x. st_mtime x = Inr t) sorted_files
            = filter (\<lambda>x. st_mtime x = Inr t) dated_files"
      "sorted (map fst dated_files) \<longrightarrow>
          (\<forall>t. sorted (map fst (filter (\<lambda>x. st_mtime x = Inr t) sorted_files)))"
    by blast
  with h s v f show ?thesis by auto
qed

text \<open>
  C1: the numeric key has one element for each character, not one for each run of
  digits, so the stem \<open>a10\<close> has the key \<open>['a', 1, 0]\<close>, which is below \<open>['a', 2]\<close>: the
  directory with \<open>a1.pdf\<close>, \<open>a2.pdf\<close> and \<open>a10.pdf\<close> is combined in the order
  \<open>a1\<close>, \<open>a10\<close>, \<open>a2\<close> in numeric mode.
\<close>

theorem numeric_sort_puts_a10_before_a2:
  "numeric_key (''a10.pdf'', pdf 1 [10]) = [PyStr ''a'', PyInt 1, PyInt 0]
   \<and> numeric_key (''a10.pdf'', pdf 1 [10]) \<noteq> [PyStr ''a'', PyInt 10]
   \<and> numeric_key (''a2.pdf'', pdf 1 [2]) = [PyStr ''a'', PyInt 2]
   \<and> key_lt [PyStr ''a'', PyInt 1, PyInt 0] [PyStr ''a'', PyInt 2] = Some True
   \<and> get_pdf_files (fs (world_of numbered_dir)) ''docs''
        = Inr [(''a1.pdf'', pdf 1 [1]), (''a10.pdf'', pdf 1 [10]), (''a2.pdf'', pdf 1 [2])]
   \<and> sort_files Numeric [(''a1.pdf'', pdf 1 [1]), (''a10.pdf'', pdf 1 [10]), (''a2.pdf'', pdf 1 [2])]
        = Inr [(''a1.pdf'', pdf 1 [1]), (''a10.pdf'', pdf 1 [10]), (''a2.pdf'', pdf 1 [2])]
   \<and> stdout (snd (main write_ok (args_of Numeric) (world_of numbered_dir)))
        = [Combining 3, Adding ''a1.pdf'', Adding ''a10.pdf'', Adding ''a2.pdf'',
           Writing ''out.pdf'', Success 3 ''out.pdf'']"
  by code_simp

text \<open>
  C4: in numeric mode the keys of \<open>1a.pdf\<close> and \<open>a1.pdf\<close> differ first in an \<open>int\<close> and a
  \<open>str\<close>, the sort raises \<open>TypeError\<close>, and \<open>main\<close> ends with status 1.
\<close>

theorem numeric_sort_raises_type_error:
  "get_pdf_files (fs (world_of mixed_dir)) ''docs''
        = Inr [(''1a.pdf'', pdf 1 [2]), (''a1.pdf'', pdf 1 [1])]
   \<and> numeric_key (''1a.pdf'', pdf 1 [2]) = [PyInt 1, PyStr ''a'']
   \<and> numeric_key (''a1.pdf'', pdf 1 [1]) = [PyStr ''a'', PyInt 1]
   \<and> sort_files Numeric [(''1a.pdf'', pdf 1 [2]), (''a1.pdf'', pdf 1 [1])] = Inl TypeError
   \<and> fst (main write_ok (args_of Numeric) (world_of mixed_dir)) = 1
   \<and> stderr (snd (main write_ok (args_of Numeric) (world_of mixed_dir))) = [TypeError]"
  by code_simp

section \<open>The Merger\<close>

text \<open>
  C7: for a list with one entry that \<open>merger.append\<close> rejects among entries it reads,
  \<open>combine_pdfs\<close> prints exactly one warning, which names that entry and its exception;
  the document it hands to \<open>merger.write\<close> is the pages of the other entries in their
  order, and no exception leaves it but one that the write raises.
\<close>

theorem merger_skips_unreadable:
  assumes "list_all readable before"
    and "list_all readable after"
    and "append_outcome bad = Inl e"
  shows "warnings (stdout (snd (combine_pdfs wr (before @ bad # after) p w)))
           = warnings (stdout w) @ [(fst bad, e)]
     \<and> fst (combine_pdfs wr (before @ bad # after) p w)
           = fst (wr (concat (map pages_of (before @ after))) p (fs w))
     \<and> fs (snd (combine_pdfs wr (before @ bad # after) p w))
           = snd (wr (concat (map pages_of (before @ after))) p (fs w))"
proof -
  have pg: "concat (map pages_of (before @ bad # after)) = concat (map pages_of (before @ after))"
    using assms(3) by (simp add: pages_of_unreadable)
  have wn: "warnings (concat (map lines_of (before @ bad # after))) = [(fst bad, e)]"
    using assms by (simp add: warnings_append warnings_readable lines_of_def)
  show ?thesis
    by (cases "fst (wr (concat (map pages_of (before @ after))) p (fs w))")
       (simp_all add: combine_pdfs_eq Let_def pg wn warnings_append del: map_append concat_append)
qed

theorem merger_skips_unreadable_witness:
  "list_all readable [(''a.pdf'', pdf 1 [10, 11])]
   \<and> list_all readable [(''c.pdf'', pdf 1 [30])]
   \<and> append_outcome (''b.pdf'', corrupt) = Inl (OtherError ''EOF marker not found'')
   \<and> warnings (stdout (snd (combine_pdfs write_ok one_corrupt ''out.pdf'' (world_of one_corrupt))))
        = [(''b.pdf'', OtherError ''EOF marker not found'')]
   \<and> fst (combine_pdfs write_ok one_corrupt ''out.pdf'' (world_of one_corrupt)) = None
   \<and> fs (snd (combine_pdfs write_ok one_corrupt ''out.pdf'' (world_of one_corrupt))) ''out.pdf''
        = Some (pdf 0 [10, 11, 30])"
proof -
  have 1: "list_all readable [(''a.pdf'', pdf 1 [10, 11])]"
    by (simp add: readable_def pdf_def)
  have 2: "list_all readable [(''c.pdf'', pdf 1 [30])]"
    by (simp add: readable_def pdf_def)
  have 3: "append_outcome (''b.pdf'', corrupt) = Inl (OtherError ''EOF marker not found'')"
    by (simp add: corrupt_def)
  have l: "one_corrupt = [(''a.pdf'', pdf 1 [10, 11])] @ (''b.pdf'', corrupt) # [(''c.pdf'', pdf 1 [30])]"
    by (simp add: one_corrupt_def)
  show ?thesis
    using 1 2 3
      merger_skips_unreadable [OF 1 2 3, of write_ok "''out.pdf''" "world_of one_corrupt"]
    by (simp add: l world_of_def write_ok_def pages_of_def pdf_def)
qed

text \<open>
  C2: with two files listed and the second one skipped, the final message still says 2,
  and the document written holds the pages of the first file only.
\<close>

theorem success_message_counts_skipped_file:
  "stdout (snd (combine_pdfs write_ok [(''a.pdf'', pdf 1 [10, 11]), (''b.pdf'', corrupt)]
                  ''out.pdf'' (world_of [])))
     = [Combining 2, Adding ''a.pdf'', Adding ''b.pdf'',
        Warning ''b.pdf'' (OtherError ''EOF marker not found''),
        Writing ''out.pdf'', Success 2 ''out.pdf'']
   \<and> fs (snd (combine_pdfs write_ok [(''a.pdf'', pdf 1 [10, 11]), (''b.pdf'', corrupt)]
                  ''out.pdf'' (world_of []))) ''out.pdf''
     = Some (pdf 0 [10, 11])"
  by code_simp

text \<open>
  C3, as stated, fails: with a write that runs out of space the run ends with status 1
  and an empty file stands at the output path, where there was none before.
\<close>

theorem failed_write_leaves_empty_file:
  "fs (world_of dated_files) ''out.pdf'' = None
   \<and> fst (main write_no_space (args_of Name) (world_of dated_files)) = 1
   \<and> fs (snd (main write_no_space (args_of Name) (world_of dated_files))) ''out.pdf''
        = Some (File (Inr 0) (Inl (OtherError ''Cannot read an empty file'')))"
  by (simp add: world_of_def dated_files_def args_of_def main_def get_pdf_files_def
        path_exists_def is_dir_def glob_pdf_def endswith_def sort_files_def combine_pdfs_eq
        write_no_space_def Let_def)

text \<open>
  C3, amended: when the final write raises, \<open>main\<close> ends with status 1, prints the
  exception on standard error, and leaves the file system exactly as \<open>merger.write\<close>
  left it: the script hands the output path itself to the write and neither writes to a
  temporary file, nor renames, nor cleans up.
\<close>

theorem failed_write_leaves_writer_state:
  assumes "get_pdf_files (fs w) (directory a) = Inr pdf_files"
    and "sort_files (sort_arg a) pdf_files = Inr sorted_files"
    and "wr (concat (map pages_of sorted_files)) (output_arg a) (fs w) = (Some e, fsys)"
  shows "fst (main wr a w) = 1
     \<and> stderr (snd (main wr a w)) = stderr w @ [e]
     \<and> fs (snd (main wr a w)) = fsys"
  using assms by (simp add: main_def combine_pdfs_eq Let_def)

theorem failed_write_leaves_writer_state_witness:
  "get_pdf_files (fs (world_of dated_files)) (directory (args_of Name)) = Inr dated_files
   \<and> sort_files (sort_arg (args_of Name)) dated_files = Inr dated_files
   \<and> write_no_space (concat (map pages_of dated_files)) (output_arg (args_of Name))
         (fs (world_of dated_files))
       = (Some (OtherError ''[Errno 28] No space left on device''),
          (fs (world_of dated_files))
            (''out.pdf'' \<mapsto> File (Inr 0) (Inl (OtherError ''Cannot read an empty file''))))
   \<and> fst (main write_no_space (args_of Name) (world_of dated_files)) = 1
   \<and> stderr (snd (main write_no_space (args_of Name) (world_of dated_files)))
       = [OtherError ''[Errno 28] No space left on device'']
   \<and> fs (snd (main write_no_space (args_of Name) (world_of dated_files)))
       = (fs (world_of dated_files))
            (''out.pdf'' \<mapsto> File (Inr 0) (Inl (OtherError ''Cannot read an empty file'')))"
proof -
  have 1: "get_pdf_files (fs (world_of dated_files)) (directory (args_of Name)) = Inr dated_files"
    by (simp add: world_of_def dated_files_def args_of_def get_pdf_files_def
          path_exists_def is_dir_def glob_pdf_def endswith_def)
  have 2: "sort_files (sort_arg (args_of Name)) dated_files = Inr dated_files"
    by (simp add: args_of_def sort_files_def)
  have 3: "write_no_space (concat (map pages_of dated_files)) (output_arg (args_of Name))
         (fs (world_of dated_files))
       = (Some (OtherError ''[Errno 28] No space left on device''),
          (fs (world_of dated_files))
            (''out.pdf'' \<mapsto> File (Inr 0) (Inl (OtherError ''Cannot read an empty file''))))"
    by (simp add: write_no_space_def args_of_def)
  have 4: "stderr (world_of dated_files) = []"
    by (simp add: world_of_def)
  show ?thesis
    using 1 2 3
      failed_write_leaves_writer_state
        [where wr = write_no_space and w = "world_of dated_files" and a = "args_of Name",
         OF 1 2 3]
    by (simp add: 4)
qed

end
